theory Spec2Isabelle
  imports Complex_Main "HOL-Library.Sublist" "HOL-Library.Word"
begin

section \<open>JavaScript values used by the pages\<close>

text \<open>
  Strings are \<open>string\<close>: the UTF-8 bytes of the text. \<^verbatim>\<open>String.prototype.trim\<close>
  removes the white space and line terminators of ECMAScript from both ends: TAB, LF, VT,
  FF, CR and SPACE (one byte each), U+00A0 (two bytes), and U+1680, U+2000 to U+200A,
  U+2028, U+2029, U+202F, U+205F, U+3000 and U+FEFF (three bytes each).
\<close>

definition white_space_1 :: "char \<Rightarrow> bool" where
  "white_space_1 a = (a \<in> set [CHR 0x09, CHR 0x0A, CHR 0x0B, CHR 0x0C, CHR 0x0D, CHR 0x20])"

definition white_space_2 :: "char \<Rightarrow> char \<Rightarrow> bool" where
  "white_space_2 a b = (a = CHR 0xC2 \<and> b = CHR 0xA0)"

definition white_space_3 :: "char \<Rightarrow> char \<Rightarrow> char \<Rightarrow> bool" where
  "white_space_3 a b c =
     ((a = CHR 0xE1 \<and> b = CHR 0x9A \<and> c = CHR 0x80)
      \<or> (a = CHR 0xE2 \<and> b = CHR 0x80
          \<and> c \<in> set [CHR 0x80, CHR 0x81, CHR 0x82, CHR 0x83, CHR 0x84, CHR 0x85, CHR 0x86,
                       CHR 0x87, CHR 0x88, CHR 0x89, CHR 0x8A, CHR 0xA8, CHR 0xA9, CHR 0xAF])
      \<or> (a = CHR 0xE2 \<and> b = CHR 0x81 \<and> c = CHR 0x9F)
      \<or> (a = CHR 0xE3 \<and> b = CHR 0x80 \<and> c = CHR 0x80)
      \<or> (a = CHR 0xEF \<and> b = CHR 0xBB \<and> c = CHR 0xBF))"

text \<open>Removing the leading characters that \<open>w1\<close>, \<open>w2\<close>, \<open>w3\<close> recognise.\<close>

fun strip_leading ::
  "(char \<Rightarrow> bool) \<Rightarrow> (char \<Rightarrow> char \<Rightarrow> bool) \<Rightarrow> (char \<Rightarrow> char \<Rightarrow> char \<Rightarrow> bool)
     \<Rightarrow> string \<Rightarrow> string" where
  "strip_leading w1 w2 w3 (a # b # c # s) =
     (if w1 a then strip_leading w1 w2 w3 (b # c # s)
      else if w2 a b then strip_leading w1 w2 w3 (c # s)
      else if w3 a b c then strip_leading w1 w2 w3 s
      else a # b # c # s)"
| "strip_leading w1 w2 w3 [a, b] =
     (if w1 a then strip_leading w1 w2 w3 [b] else if w2 a b then [] else [a, b])"
| "strip_leading w1 w2 w3 [a] = (if w1 a then [] else [a])"
| "strip_leading w1 w2 w3 [] = []"

definition trim_start :: "string \<Rightarrow> string" where
  "trim_start t = strip_leading white_space_1 white_space_2 white_space_3 t"

definition trim_end :: "string \<Rightarrow> string" where
  "trim_end t =
     rev (strip_leading white_space_1 (\<lambda>b a. white_space_2 a b) (\<lambda>c b a. white_space_3 a b c) (rev t))"

definition js_trim :: "string \<Rightarrow> string" where
  "js_trim t = trim_end (trim_start t)"

text \<open>\<^verbatim>\<open>a || d\<close> on an optional string: \<^verbatim>\<open>undefined\<close>, \<^verbatim>\<open>null\<close> and the
  empty string are falsy.\<close>

definition js_or :: "string option \<Rightarrow> string \<Rightarrow> string" where
  "js_or a d = (case a of None \<Rightarrow> d | Some v \<Rightarrow> if v = [] then d else v)"

definition js_truthy :: "string option \<Rightarrow> bool" where
  "js_truthy a = (case a of None \<Rightarrow> False | Some v \<Rightarrow> v \<noteq> [])"

text \<open>\<^verbatim>\<open>Array.prototype.slice(start)\<close>: a negative start counts from the end and is
  clamped at 0; a start beyond the end gives the empty array.\<close>

definition js_slice :: "int \<Rightarrow> 'a list \<Rightarrow> 'a list" where
  "js_slice start xs =
     (let n = int (length xs);
          k = (if start < 0 then max (n + start) 0 else min start n)
      in drop (nat k) xs)"

text \<open>Decimal rendering of numbers inside template literals.\<close>

definition digit_char :: "nat \<Rightarrow> char" where
  "digit_char d = ''0123456789'' ! d"

fun show_nat :: "nat \<Rightarrow> string" where
  "show_nat n = (if n < 10 then [digit_char n] else show_nat (n div 10) @ [digit_char (n mod 10)])"

declare show_nat.simps [simp del]

definition show_int :: "int \<Rightarrow> string" where
  "show_int i = (if i < 0 then ''-'' @ show_nat (nat (- i)) else show_nat (nat i))"

text \<open>\<^verbatim>\<open>Math.round\<close> rounds half-way cases towards plus infinity.\<close>

definition Math_round :: "rat \<Rightarrow> int" where
  "Math_round x = \<lfloor>x + 1 / 2\<rfloor>"

definition API_BASE :: string where
  "API_BASE = ''/api''"

section \<open>Data exchanged with the backend\<close>

record turn =
  role :: string
  content :: string

record ask_request =
  ask_text :: string
  conversation_history :: "turn list"

record generate_request =
  prompt :: string
  gen_conversation_history :: "turn list"

record ask_body =
  success :: bool
  response_text :: string
  audio_url :: "string option"
  error :: "string option"

record generate_body =
  gen_success :: bool
  generated_content :: string
  memory_extracted :: bool
  gen_error :: "string option"

record upload_body =
  up_success :: bool
  up_error :: "string option"

text \<open>A response of \<^verbatim>\<open>fetch\<close>: \<open>json\<close> is what \<^verbatim>\<open>response.json()\<close> resolves to,
  or \<open>Inl m\<close> when it rejects with message \<open>m\<close>.\<close>

record 'b response =
  ok :: bool
  status :: nat
  statusText :: string
  json :: "string + 'b"

datatype 'b fetch_outcome = Rejected string | Responded "'b response"

type_synonym byte = "8 word"

record blob =
  blob_bytes :: "byte list"
  blob_type :: string

record js_file = blob +
  file_name :: string

definition blob_size :: "'a blob_scheme \<Rightarrow> nat" where
  "blob_size b = length (blob_bytes b)"

text \<open>\<^verbatim>\<open>new Blob(parts, {type})\<close> concatenates the parts in order.\<close>

definition new_Blob :: "blob list \<Rightarrow> string \<Rightarrow> blob" where
  "new_Blob parts ty = \<lparr>blob_bytes = concat (map blob_bytes parts), blob_type = ty\<rparr>"

definition new_File :: "blob list \<Rightarrow> string \<Rightarrow> string \<Rightarrow> js_file" where
  "new_File parts nm ty =
     \<lparr>blob_bytes = concat (map blob_bytes parts), blob_type = ty, file_name = nm\<rparr>"

record js_error =
  name :: string
  message :: string

section \<open>Effects on the browser\<close>

text \<open>
  Every handler appends the browser operations it issues to a log, in program order.
  A write to a page element is logged as issued (the source performs it when the element
  is on the page).
\<close>

datatype effect =
    SetWaveformState string
  | UpdateStatus string string
  | ClassAdd string string
  | ClassRemove string string
  | SetTextContent string string
  | SetDisplay string string
  | RecognitionStart
  | RecognitionStop
  | FetchAsk string bool ask_request
  | AudioPlay string
  | GetUserMedia
  | TrackStop nat
  | RecorderStart nat nat
  | RecorderStop nat
  | SetInterval nat
  | ClearInterval nat
  | ShowRecordingResult string string
  | FetchUpload string bool "(string \<times> js_file) list"
  | ReloadAfter nat

fun ask_requests :: "effect list \<Rightarrow> ask_request list" where
  "ask_requests [] = []"
| "ask_requests (FetchAsk u c b # es) = b # ask_requests es"
| "ask_requests (e # es) = ask_requests es"

fun uploads :: "effect list \<Rightarrow> (string \<times> js_file) list list" where
  "uploads [] = []"
| "uploads (FetchUpload u c b # es) = b # uploads es"
| "uploads (e # es) = uploads es"

fun speaking_effect :: "effect \<Rightarrow> bool" where
  "speaking_effect (SetWaveformState w) = (w = ''active'')"
| "speaking_effect (UpdateStatus t ty) = (ty = ''speaking'')"
| "speaking_effect (AudioPlay u) = True"
| "speaking_effect e = False"

section \<open>The voice page (voice.js)\<close>

text \<open>
  The module-level variables of voice.js, the \<^verbatim>\<open>MediaRecorder\<close> objects the page has
  created (\<open>mediaRecorder\<close> refers to one by its index), the number of
  \<^verbatim>\<open>getUserMedia\<close> promises not yet settled, and the effect log.
\<close>

record media_recorder =
  rec_stream :: "nat list"
  rec_mimeType :: string
  rec_state :: string

record voice_page =
  recognition :: bool
  isRecording :: bool
  conversationHistory :: "turn list"
  mediaRecorder :: "nat option"
  audioChunks :: "blob list"
  isRecordingSetup :: bool
  recordingStartTime :: "int option"
  recordingTimer :: "nat option"
  audioPlayer :: bool
  recorders :: "media_recorder list"
  pendingUserMedia :: nat
  fx :: "effect list"

definition emit :: "effect list \<Rightarrow> voice_page \<Rightarrow> voice_page" where
  "emit es s = s\<lparr>fx := fx s @ es\<rparr>"

text \<open>The effects a handler added to the log of \<open>s\<close>.\<close>

definition emitted :: "voice_page \<Rightarrow> voice_page \<Rightarrow> effect list" where
  "emitted s s' = drop (length (fx s)) (fx s')"

subsection \<open>Conversational recording\<close>

definition stopRecording :: "voice_page \<Rightarrow> voice_page" where
  "stopRecording s =
     (if \<not> isRecording s then s
      else emit ([ClassRemove ''voiceRecordBtn'' ''recording'']
                 @ (if recognition s then [RecognitionStop] else [])
                 @ [SetWaveformState ''processing'', UpdateStatus ''Processing...'' ''processing''])
             (s\<lparr>isRecording := False\<rparr>))"

text \<open>\<open>start_throws\<close>: whether \<^verbatim>\<open>recognition.start()\<close> throws.\<close>

definition startRecording :: "bool \<Rightarrow> voice_page \<Rightarrow> voice_page" where
  "startRecording start_throws s =
     (if \<not> recognition s \<or> isRecording s then s
      else let s1 = emit [ClassAdd ''voiceRecordBtn'' ''recording'',
                          SetWaveformState ''listening'',
                          UpdateStatus ''Listening...'' ''listening'',
                          RecognitionStart]
                      (s\<lparr>isRecording := True\<rparr>)
           in if start_throws then stopRecording s1 else s1)"

text \<open>\<^verbatim>\<open>recognition.onerror\<close> and \<^verbatim>\<open>recognition.onend\<close>.\<close>

definition recognition_onerror :: "string \<Rightarrow> voice_page \<Rightarrow> voice_page" where
  "recognition_onerror err s = emit [UpdateStatus (''Error: '' @ err) ''error''] (stopRecording s)"

definition recognition_onend :: "voice_page \<Rightarrow> voice_page" where
  "recognition_onend s = stopRecording s"

subsection \<open>The ask exchange\<close>

text \<open>
  \<^verbatim>\<open>handleVoiceInput\<close> is an async function. \<open>handleVoiceInput\<close> is its body up to
  \<^verbatim>\<open>await fetch(...)\<close>; \<open>handleVoiceInput_response\<close> is the rest, run when the
  fetch settles, up to the start of playback.
\<close>

definition handleVoiceInput :: "string \<Rightarrow> voice_page \<Rightarrow> voice_page" where
  "handleVoiceInput txt s =
     (if js_trim txt = [] then
        emit [SetWaveformState '''', UpdateStatus ''Ready to listen'' ''ready''] s
      else
        let h = conversationHistory s @ [\<lparr>role = ''user'', content = txt\<rparr>]
        in emit [SetWaveformState ''processing'',
                 UpdateStatus ''Getting response...'' ''processing'',
                 FetchAsk (API_BASE @ ''/voice/ask/'') True
                   \<lparr>ask_text = txt, conversation_history = js_slice (- 10) h\<rparr>]
             (s\<lparr>conversationHistory := h\<rparr>))"

text \<open>The \<^verbatim>\<open>catch\<close> block of \<^verbatim>\<open>handleVoiceInput\<close>, with \<^verbatim>\<open>error.message\<close>.\<close>

definition handleVoiceInput_catch :: "string \<Rightarrow> voice_page \<Rightarrow> voice_page" where
  "handleVoiceInput_catch msg s =
     emit [SetWaveformState '''', UpdateStatus (''Error: '' @ msg) ''error''] s"

text \<open>\<^verbatim>\<open>playAudio\<close> up to \<^verbatim>\<open>audioPlayer.play()\<close>; without the audio element the
  promise is rejected with a string, whose \<^verbatim>\<open>message\<close> is \<^verbatim>\<open>undefined\<close>.\<close>

definition playAudio :: "string \<Rightarrow> voice_page \<Rightarrow> voice_page" where
  "playAudio url s =
     (if \<not> audioPlayer s then handleVoiceInput_catch ''undefined'' s
      else emit [AudioPlay url] s)"

definition handleVoiceInput_response :: "ask_body fetch_outcome \<Rightarrow> voice_page \<Rightarrow> voice_page" where
  "handleVoiceInput_response out s =
     (case out of
        Rejected msg \<Rightarrow> handleVoiceInput_catch msg s
      | Responded r \<Rightarrow>
          (case json r of
             Inl msg \<Rightarrow> handleVoiceInput_catch msg s
           | Inr d \<Rightarrow>
               if \<not> ok r then
                 handleVoiceInput_catch
                   (js_or (error d) (''HTTP '' @ show_nat (status r) @ '': '' @ statusText r)) s
               else if success d then
                 let s1 = s\<lparr>conversationHistory :=
                              conversationHistory s @ [\<lparr>role = ''assistant'', content = response_text d\<rparr>]\<rparr>
                 in if js_truthy (audio_url d) then
                      playAudio (the (audio_url d))
                        (emit [SetWaveformState ''active'', UpdateStatus ''Speaking...'' ''speaking''] s1)
                    else emit [SetWaveformState '''', UpdateStatus ''Ready to listen'' ''ready''] s1
               else handleVoiceInput_catch (js_or (error d) ''Failed to get response'') s))"

subsection \<open>Voice-sample capture (setup mode)\<close>

definition showRecordingResult :: "string \<Rightarrow> string \<Rightarrow> voice_page \<Rightarrow> voice_page" where
  "showRecordingResult msg ty s = emit [ShowRecordingResult msg ty] s"

definition resetRecordingUI :: "voice_page \<Rightarrow> voice_page" where
  "resetRecordingUI s =
     (emit [ClassRemove ''recordBtn'' ''recording'',
            ClassRemove ''statusDot'' ''recording'',
            SetTextContent ''recordingStatusText'' ''Ready to record'',
            SetDisplay ''recordingTimer'' ''none''] s)\<lparr>isRecordingSetup := False\<rparr>"

text \<open>
  \<^verbatim>\<open>startSetupRecording\<close> is an async function. \<open>startSetupRecording\<close> is its body up to
  \<^verbatim>\<open>await navigator.mediaDevices.getUserMedia(...)\<close>. When the promise resolves with a
  stream (given by its tracks) the body goes on as \<open>startSetupRecording_granted\<close>; when it
  rejects, as \<open>startSetupRecording_rejected\<close>. Both run only for a promise that is pending.
\<close>

definition startSetupRecording :: "voice_page \<Rightarrow> voice_page" where
  "startSetupRecording s =
     (if isRecordingSetup s then s
      else emit [GetUserMedia] (s\<lparr>pendingUserMedia := Suc (pendingUserMedia s)\<rparr>))"

text \<open>What the browser answers during the rest of \<^verbatim>\<open>startSetupRecording\<close>: which MIME
  types \<^verbatim>\<open>MediaRecorder.isTypeSupported\<close> accepts, the exception (if any) thrown by
  \<^verbatim>\<open>new MediaRecorder\<close> and by \<^verbatim>\<open>mediaRecorder.start\<close>, \<^verbatim>\<open>Date.now()\<close>, and the
  identifier returned by \<^verbatim>\<open>setInterval\<close>.\<close>

record recorder_env =
  env_isTypeSupported :: "string \<Rightarrow> bool"
  env_ctor_error :: "js_error option"
  env_start_error :: "js_error option"
  env_now :: int
  env_interval :: nat

definition choose_mimeType :: "(string \<Rightarrow> bool) \<Rightarrow> string" where
  "choose_mimeType supported =
     (if supported ''audio/webm;codecs=opus'' then ''audio/webm;codecs=opus''
      else if supported ''audio/webm'' then ''audio/webm''
      else if supported ''audio/mp4'' then ''audio/mp4''
      else ''audio/webm'')"

text \<open>The \<^verbatim>\<open>catch\<close> block of \<^verbatim>\<open>startSetupRecording\<close>.\<close>

definition startSetupRecording_catch :: "js_error \<Rightarrow> voice_page \<Rightarrow> voice_page" where
  "startSetupRecording_catch e s =
     resetRecordingUI
       (showRecordingResult
          (''Error accessing microphone. '' @
             (if name e = ''NotAllowedError'' \<or> name e = ''PermissionDeniedError''
              then ''Please allow microphone permissions in your browser settings.''
              else if name e = ''NotFoundError'' then ''No microphone found.''
              else message e))
          ''error'' s)"

definition startSetupRecording_rejected :: "js_error \<Rightarrow> voice_page \<Rightarrow> voice_page" where
  "startSetupRecording_rejected e s =
     (if pendingUserMedia s = 0 then s
      else startSetupRecording_catch e (s\<lparr>pendingUserMedia := pendingUserMedia s - 1\<rparr>))"

definition startSetupRecording_granted :: "nat list \<Rightarrow> recorder_env \<Rightarrow> voice_page \<Rightarrow> voice_page" where
  "startSetupRecording_granted stream env s =
     (if pendingUserMedia s = 0 then s
      else
        let s0 = s\<lparr>pendingUserMedia := pendingUserMedia s - 1\<rparr>;
            mimeType = choose_mimeType (env_isTypeSupported env)
        in case env_ctor_error env of
             Some e \<Rightarrow> startSetupRecording_catch e s0
           | None \<Rightarrow>
               let rid = length (recorders s0);
                   s1 = s0\<lparr>recorders := recorders s0 @
                              [\<lparr>rec_stream = stream, rec_mimeType = mimeType, rec_state = ''inactive''\<rparr>],
                            mediaRecorder := Some rid,
                            audioChunks := []\<rparr>
               in (case env_start_error env of
                     Some e \<Rightarrow> startSetupRecording_catch e (emit [RecorderStart rid 1000] s1)
                   | None \<Rightarrow>
                       emit [ClassAdd ''recordBtn'' ''recording'',
                             ClassAdd ''statusDot'' ''recording'',
                             SetTextContent ''recordingStatusText'' ''Recording...'',
                             SetDisplay ''recordingTimer'' ''block'',
                             SetInterval (env_interval env)]
                         ((emit [RecorderStart rid 1000] s1)
                            \<lparr>recorders := (recorders s1)[rid := (recorders s1 ! rid)\<lparr>rec_state := ''recording''\<rparr>],
                             isRecordingSetup := True,
                             recordingStartTime := Some (env_now env),
                             recordingTimer := Some (env_interval env)\<rparr>)))"

definition stopSetupRecording :: "voice_page \<Rightarrow> voice_page" where
  "stopSetupRecording s =
     (if \<not> isRecordingSetup s then s
      else
        let s1 = (case mediaRecorder s of
                    None \<Rightarrow> s
                  | Some rid \<Rightarrow>
                      if rid < length (recorders s) \<and> rec_state (recorders s ! rid) \<noteq> ''inactive''
                      then emit [RecorderStop rid]
                             (s\<lparr>recorders := (recorders s)[rid := (recorders s ! rid)\<lparr>rec_state := ''inactive''\<rparr>]\<rparr>)
                      else s);
            s2 = s1\<lparr>isRecordingSetup := False\<rparr>;
            s3 = (case recordingTimer s2 of
                    None \<Rightarrow> s2
                  | Some t \<Rightarrow> if t = 0 then s2
                              else emit [ClearInterval t] (s2\<lparr>recordingTimer := None\<rparr>))
        in emit [ClassRemove ''recordBtn'' ''recording'',
                 ClassRemove ''statusDot'' ''recording'',
                 SetTextContent ''recordingStatusText'' ''Processing...''] s3)"

text \<open>\<^verbatim>\<open>mediaRecorder.ondataavailable\<close> and \<^verbatim>\<open>mediaRecorder.onerror\<close>.\<close>

definition mediaRecorder_ondataavailable :: "blob \<Rightarrow> voice_page \<Rightarrow> voice_page" where
  "mediaRecorder_ondataavailable d s =
     (if blob_size d > 0 then s\<lparr>audioChunks := audioChunks s @ [d]\<rparr> else s)"

definition mediaRecorder_onerror :: "string \<Rightarrow> voice_page \<Rightarrow> voice_page" where
  "mediaRecorder_onerror msg s =
     stopSetupRecording (showRecordingResult (''Recording error: '' @ msg) ''error'' s)"

text \<open>\<^verbatim>\<open>uploadRecording\<close> up to \<^verbatim>\<open>await fetch(...)\<close>, and the rest of it.\<close>

definition uploadRecording :: "blob \<Rightarrow> voice_page \<Rightarrow> voice_page" where
  "uploadRecording audioBlob s =
     (let audioFile = new_File [audioBlob] ''voice-sample.webm'' ''audio/webm'';
          formData = [(''audio_file'', audioFile)]
      in emit [SetTextContent ''recordingStatusText'' ''Uploading and creating voice clone...'',
               FetchUpload (API_BASE @ ''/voice/upload-sample/'') True formData] s)"

definition uploadRecording_catch :: "string \<Rightarrow> voice_page \<Rightarrow> voice_page" where
  "uploadRecording_catch msg s =
     emit [SetTextContent ''recordingStatusText'' ''Ready to record''] (showRecordingResult msg ''error'' s)"

definition uploadRecording_response :: "upload_body fetch_outcome \<Rightarrow> voice_page \<Rightarrow> voice_page" where
  "uploadRecording_response out s =
     (case out of
        Rejected msg \<Rightarrow> uploadRecording_catch msg s
      | Responded r \<Rightarrow>
          (case json r of
             Inl msg \<Rightarrow> uploadRecording_catch msg s
           | Inr d \<Rightarrow>
               if \<not> ok r then uploadRecording_catch (js_or (up_error d) ''Upload failed'') s
               else if up_success d then
                 emit [SetTextContent ''recordingStatusText'' ''Success!'', ReloadAfter 2000]
                   (showRecordingResult ''Voice clone created successfully! Reloading...'' ''success'' s)
               else uploadRecording_catch (js_or (up_error d) ''Failed to create voice clone'') s))"

text \<open>
  \<^verbatim>\<open>mediaRecorder.onstop\<close> of the recorder with index \<open>rid\<close>; the handler closes over that
  recorder's stream and MIME type, and reads the module-level \<^verbatim>\<open>recordingStartTime\<close> and
  \<^verbatim>\<open>audioChunks\<close>. \<open>now\<close> is \<^verbatim>\<open>Date.now()\<close>, in milliseconds; a \<^verbatim>\<open>null\<close> start time
  counts as 0 in the subtraction.
\<close>

definition actualDuration :: "int \<Rightarrow> voice_page \<Rightarrow> rat" where
  "actualDuration now s =
     of_int (now - (case recordingStartTime s of None \<Rightarrow> 0 | Some t \<Rightarrow> t)) / 1000"

definition mediaRecorder_onstop :: "nat \<Rightarrow> int \<Rightarrow> voice_page \<Rightarrow> voice_page" where
  "mediaRecorder_onstop rid now s =
     (if rid < length (recorders s) then
        let r = recorders s ! rid;
            s1 = emit (map TrackStop (rec_stream r)) s;
            audioBlob = new_Blob (audioChunks s1) (rec_mimeType r)
        in if actualDuration now s1 < 30 then
             resetRecordingUI
               (showRecordingResult
                  (''Recording too short ('' @ show_int (Math_round (actualDuration now s1))
                     @ ''s). Please record at least 30 seconds.'')
                  ''error'' s1)
           else uploadRecording audioBlob s1
      else s)"

subsection \<open>Runs of the voice page\<close>

text \<open>
  An event is one run of a handler of voice.js, or of the rest of an async function when
  the promise it awaits settles; the browser runs them one at a time. The events are the
  handlers that read or write the variables of \<open>voice_page\<close>. The button listeners
  call \<^verbatim>\<open>startRecording\<close>, \<^verbatim>\<open>stopRecording\<close>, \<^verbatim>\<open>startSetupRecording\<close> and
  \<^verbatim>\<open>stopSetupRecording\<close> under guards of their own, so their runs are among those of the
  events below. The callbacks of the audio element, the tick of the recording timer, and
  the loading of the profile and of the user only write to the page; they are left out.
\<close>

datatype event =
    StartRecording bool
  | StopRecording
  | RecognitionResult string
  | RecognitionError string
  | RecognitionEnd
  | AskSettled "ask_body fetch_outcome"
  | StartSetupRecording
  | UserMediaGranted "nat list" recorder_env
  | UserMediaRejected js_error
  | StopSetupRecording
  | DataAvailable blob
  | RecorderError string
  | RecorderStopped nat int
  | UploadSettled "upload_body fetch_outcome"

fun step :: "voice_page \<Rightarrow> event \<Rightarrow> voice_page" where
  "step s (StartRecording th) = startRecording th s"
| "step s StopRecording = stopRecording s"
| "step s (RecognitionResult t) = handleVoiceInput t s"
| "step s (RecognitionError e) = recognition_onerror e s"
| "step s RecognitionEnd = recognition_onend s"
| "step s (AskSettled out) = handleVoiceInput_response out s"
| "step s StartSetupRecording = startSetupRecording s"
| "step s (UserMediaGranted st env) = startSetupRecording_granted st env s"
| "step s (UserMediaRejected e) = startSetupRecording_rejected e s"
| "step s StopSetupRecording = stopSetupRecording s"
| "step s (DataAvailable d) = mediaRecorder_ondataavailable d s"
| "step s (RecorderError m) = mediaRecorder_onerror m s"
| "step s (RecorderStopped rid now) = mediaRecorder_onstop rid now s"
| "step s (UploadSettled out) = uploadRecording_response out s"

definition run :: "voice_page \<Rightarrow> event list \<Rightarrow> voice_page" where
  "run s evs = foldl step s evs"

text \<open>The page as the script leaves it when loaded, with or without speech recognition.\<close>

definition initial_page :: "bool \<Rightarrow> voice_page" where
  "initial_page rec =
     \<lparr>recognition = rec, isRecording = False, conversationHistory = [],
      mediaRecorder = None, audioChunks = [], isRecordingSetup = False,
      recordingStartTime = None, recordingTimer = None, audioPlayer = True,
      recorders = [], pendingUserMedia = 0, fx = []\<rparr>"

text \<open>The recorders that are capturing.\<close>

definition active_recorders :: "voice_page \<Rightarrow> nat" where
  "active_recorders s = length (filter (\<lambda>r. rec_state r = ''recording'') (recorders s))"

section \<open>The chat page (chat.js)\<close>

record utterance =
  utt_text :: string
  rate :: rat
  pitch :: rat
  volume :: rat
  lang :: string

datatype chat_effect =
    AddMessage string string bool
  | AddMessageAfter nat string string
  | ShowTypingIndicator
  | HideTypingIndicator
  | FetchGenerate string bool generate_request
  | SynthCancel
  | SynthSpeak utterance

fun generate_requests :: "chat_effect list \<Rightarrow> generate_request list" where
  "generate_requests [] = []"
| "generate_requests (FetchGenerate u c b # es) = b # generate_requests es"
| "generate_requests (e # es) = generate_requests es"

text \<open>
  The module-level variables of chat.js that the handlers below use, the value of the
  message input (\<open>None\<close> when the element is missing), and the browser's speech
  synthesiser: \<open>None\<close> when \<^verbatim>\<open>'speechSynthesis' in window\<close> is false,
  otherwise its queue of utterances, the head being the one spoken.
\<close>

record chat_page =
  chat_conversationHistory :: "turn list"
  messageInput :: "string option"
  speechSynthesis :: "utterance list option"
  chat_fx :: "chat_effect list"

definition chat_emit :: "chat_effect list \<Rightarrow> chat_page \<Rightarrow> chat_page" where
  "chat_emit es c = c\<lparr>chat_fx := chat_fx c @ es\<rparr>"

definition chat_emitted :: "chat_page \<Rightarrow> chat_page \<Rightarrow> chat_effect list" where
  "chat_emitted c c' = drop (length (chat_fx c)) (chat_fx c')"

text \<open>\<^verbatim>\<open>sendMessage\<close> up to \<^verbatim>\<open>await fetch(...)\<close>, and the rest of it.\<close>

definition sendMessage :: "chat_page \<Rightarrow> chat_page" where
  "sendMessage c =
     (case messageInput c of
        None \<Rightarrow> c
      | Some v \<Rightarrow>
          let txt = js_trim v in
          if txt = [] then c
          else
            let h = chat_conversationHistory c @ [\<lparr>role = ''user'', content = txt\<rparr>]
            in chat_emit [AddMessage ''user'' txt False,
                          ShowTypingIndicator,
                          FetchGenerate (API_BASE @ ''/generate/'') True
                            \<lparr>prompt = txt, gen_conversation_history = js_slice (- 10) h\<rparr>]
                 (c\<lparr>chat_conversationHistory := h, messageInput := Some []\<rparr>))"

definition cross_mark :: string where
  "cross_mark = [CHR 0xE2, CHR 0x9D, CHR 0x8C]"

definition light_bulb :: string where
  "light_bulb = [CHR 0xF0, CHR 0x9F, CHR 0x92, CHR 0xA1]"

definition sendMessage_catch :: "string \<Rightarrow> chat_page \<Rightarrow> chat_page" where
  "sendMessage_catch msg c =
     chat_emit [HideTypingIndicator,
                AddMessage ''system''
                  (cross_mark @ '' Error: '' @ msg @ ''. Please try again or check the console for details.'')
                  False] c"

definition memory_notice :: string where
  "memory_notice =
     light_bulb @ '' I learned something new about you! <a href='' @ [CHR 0x22] @ ''/timeline/''
       @ [CHR 0x22] @ '' style='' @ [CHR 0x22]
       @ ''color: var(--secondary); text-decoration: underline;'' @ [CHR 0x22]
       @ ''>View Memory Timeline</a>''"

definition sendMessage_response :: "generate_body fetch_outcome \<Rightarrow> chat_page \<Rightarrow> chat_page" where
  "sendMessage_response out c =
     (case out of
        Rejected msg \<Rightarrow> sendMessage_catch msg c
      | Responded r \<Rightarrow>
          if \<not> ok r then
            sendMessage_catch (''HTTP '' @ show_nat (status r) @ '': '' @ statusText r) c
          else
            (case json r of
               Inl msg \<Rightarrow> sendMessage_catch msg c
             | Inr d \<Rightarrow>
                 if gen_success d then
                   chat_emit ([HideTypingIndicator, AddMessage ''agent'' (generated_content d) True]
                              @ (if memory_extracted d
                                 then [AddMessageAfter 500 ''system'' memory_notice]
                                 else []))
                     (c\<lparr>chat_conversationHistory :=
                          chat_conversationHistory c @ [\<lparr>role = ''assistant'', content = generated_content d\<rparr>]\<rparr>)
                 else
                   chat_emit [HideTypingIndicator,
                              AddMessage ''system''
                                (cross_mark @ '' Error: '' @ js_or (gen_error d) ''Generation failed'') False] c))"

subsection \<open>Text to speech\<close>

text \<open>The browser's synthesiser: \<^verbatim>\<open>cancel()\<close> removes every utterance from the queue,
  the one being spoken included; \<^verbatim>\<open>speak(u)\<close> appends \<open>u\<close> to the queue.\<close>

definition synth_cancel :: "utterance list \<Rightarrow> utterance list" where
  "synth_cancel q = []"

definition synth_speak :: "utterance \<Rightarrow> utterance list \<Rightarrow> utterance list" where
  "synth_speak u q = q @ [u]"

definition new_utterance :: "string \<Rightarrow> utterance" where
  "new_utterance t = \<lparr>utt_text = t, rate = 1, pitch = 1, volume = 1, lang = ''en-US''\<rparr>"

definition speakResponse :: "string \<Rightarrow> chat_page \<Rightarrow> chat_page" where
  "speakResponse t c =
     (case speechSynthesis c of
        None \<Rightarrow> c
      | Some q \<Rightarrow>
          chat_emit [SynthCancel, SynthSpeak (new_utterance t)]
            (c\<lparr>speechSynthesis := Some (synth_speak (new_utterance t) (synth_cancel q))\<rparr>))"

section \<open>The onboarding file picker\<close>

text \<open>
  \<^verbatim>\<open>handleFiles\<close> pushes each incoming file that no selected file matches in name and
  size, then re-renders the list (one item per selected file, with its name and size) and
  enables the upload button when a file is selected. \<^verbatim>\<open>file.size\<close> is the number of
  bytes of the file.
\<close>

record onboarding_page =
  selectedFiles :: "js_file list"
  fileList :: "(string \<times> nat) list"
  uploadBtn_disabled :: bool

definition updateFileList :: "onboarding_page \<Rightarrow> onboarding_page" where
  "updateFileList p = p\<lparr>fileList := map (\<lambda>f. (file_name f, blob_size f)) (selectedFiles p)\<rparr>"

definition updateUploadButton :: "onboarding_page \<Rightarrow> onboarding_page" where
  "updateUploadButton p = p\<lparr>uploadBtn_disabled := (length (selectedFiles p) = 0)\<rparr>"

definition push_if_new :: "js_file list \<Rightarrow> js_file \<Rightarrow> js_file list" where
  "push_if_new sel f =
     (if List.find (\<lambda>g. file_name g = file_name f \<and> blob_size g = blob_size f) sel = None
      then sel @ [f] else sel)"

definition handleFiles :: "js_file list \<Rightarrow> onboarding_page \<Rightarrow> onboarding_page" where
  "handleFiles files p =
     updateUploadButton (updateFileList (p\<lparr>selectedFiles := foldl push_if_new (selectedFiles p) files\<rparr>))"

text \<open>The test \<^verbatim>\<open>handleFiles\<close> applies: same name and same size.\<close>

definition same_key :: "js_file \<Rightarrow> js_file \<Rightarrow> bool" where
  "same_key f g = (file_name g = file_name f \<and> blob_size g = blob_size f)"

section \<open>Failed exchanges\<close>

text \<open>The outcomes of the ask request that make \<^verbatim>\<open>handleVoiceInput\<close> take its
  \<^verbatim>\<open>catch\<close> block before any turn is pushed: a rejected fetch, a response that is not
  2xx, a body that does not parse, a body with \<open>success\<close> false.\<close>

fun ask_failed :: "ask_body fetch_outcome \<Rightarrow> bool" where
  "ask_failed (Rejected m) = True"
| "ask_failed (Responded r) =
     (if ok r then (case json r of Inl m \<Rightarrow> True | Inr d \<Rightarrow> \<not> success d) else True)"

section \<open>Tracks and the recorders that hold them\<close>

text \<open>The tracks of the streams that the recorders created so far were given, and the
  tracks of the stream an event hands to the page.\<close>

definition held_tracks :: "voice_page \<Rightarrow> nat set" where
  "held_tracks s = (\<Union>r \<in> set (recorders s). set (rec_stream r))"

fun granted_tracks :: "event \<Rightarrow> nat set" where
  "granted_tracks (UserMediaGranted st env) = set st"
| "granted_tracks e = {}"

definition never_stopped :: "nat \<Rightarrow> voice_page \<Rightarrow> bool" where
  "never_stopped t s = (TrackStop t \<notin> set (fx s) \<and> t \<notin> held_tracks s)"

section \<open>Concrete pages and inputs\<close>

definition eleven_turns :: "turn list" where
  "eleven_turns = map (\<lambda>c. \<lparr>role = ''user'', content = [c]\<rparr>) ''abcdefghijk''"

definition page_with_history :: voice_page where
  "page_with_history = (initial_page True)\<lparr>conversationHistory := eleven_turns\<rparr>"

text \<open>The chat page with eleven turns in its history and a message typed with blanks
  around it.\<close>

definition chat_with_history :: chat_page where
  "chat_with_history =
     \<lparr>chat_conversationHistory = eleven_turns, messageInput = Some ''  hello '',
      speechSynthesis = None, chat_fx = []\<rparr>"

definition failure_response :: "ask_body response" where
  "failure_response =
     \<lparr>ok = True, status = 200, statusText = ''OK'',
      json = Inr \<lparr>success = False, response_text = [], audio_url = None, error = Some ''X''\<rparr>\<rparr>"

definition silent_response :: "ask_body response" where
  "silent_response =
     \<lparr>ok = True, status = 200, statusText = ''OK'',
      json = Inr \<lparr>success = True, response_text = ''hi there'', audio_url = None, error = None\<rparr>\<rparr>"

definition granted_env :: "int \<Rightarrow> recorder_env" where
  "granted_env t =
     \<lparr>env_isTypeSupported = (\<lambda>m. True), env_ctor_error = None, env_start_error = None,
      env_now = t, env_interval = 1\<rparr>"

definition chunk_a :: blob where "chunk_a = \<lparr>blob_bytes = [1, 2], blob_type = ''audio/webm;codecs=opus''\<rparr>"
definition chunk_b :: blob where "chunk_b = \<lparr>blob_bytes = [3], blob_type = ''audio/webm;codecs=opus''\<rparr>"

text \<open>A recording started at time 1000 (ms) on a one-track stream, with two chunks
  buffered, stopped by the user.\<close>

definition stopped_recording :: voice_page where
  "stopped_recording =
     run (initial_page True)
       [StartSetupRecording, UserMediaGranted [0] (granted_env 1000),
        DataAvailable chunk_a, DataAvailable chunk_b, StopSetupRecording]"

definition silent_chat :: chat_page where
  "silent_chat =
     \<lparr>chat_conversationHistory = [], messageInput = Some [], speechSynthesis = Some [],
      chat_fx = []\<rparr>"

definition cv_file :: js_file where
  "cv_file = \<lparr>blob_bytes = [1, 2], blob_type = ''text/plain'', file_name = ''cv.txt''\<rparr>"

definition other_cv_file :: js_file where
  "other_cv_file = \<lparr>blob_bytes = [3, 4], blob_type = ''text/plain'', file_name = ''cv.txt''\<rparr>"

definition essay_file :: js_file where
  "essay_file = \<lparr>blob_bytes = [5], blob_type = ''text/plain'', file_name = ''essay.txt''\<rparr>"

definition empty_picker :: onboarding_page where
  "empty_picker = \<lparr>selectedFiles = [], fileList = [], uploadBtn_disabled = True\<rparr>"

text \<open>A first exchange that fails, five exchanges that succeed, and the page after them.\<close>

definition after_failed_turn :: voice_page where
  "after_failed_turn =
     run (initial_page True) [RecognitionResult ''a'', AskSettled (Rejected ''Failed to fetch'')]"

definition one_exchange :: "event list" where
  "one_exchange = [RecognitionResult ''b'', AskSettled (Responded silent_response)]"

definition later_page :: voice_page where
  "later_page =
     run after_failed_turn (one_exchange @ one_exchange @ one_exchange @ one_exchange @ one_exchange)"

definition page_after_retry :: voice_page where
  "page_after_retry =
     run (handleVoiceInput ''a'' (initial_page True))
       (AskSettled (Rejected ''Failed to fetch'') # one_exchange)"

text \<open>Two presses of the setup record button before the microphone request of the first
  is answered, then both requests granted (streams with track 0 and track 1).\<close>

definition double_start :: voice_page where
  "double_start =
     run (initial_page True)
       [StartSetupRecording, StartSetupRecording,
        UserMediaGranted [0] (granted_env 1000), UserMediaGranted [1] (granted_env 1010)]"

text \<open>A browser that supports none of the three MIME types, so that the default type is
  passed to \<^verbatim>\<open>new MediaRecorder\<close>, which throws; and the page after one press of the setup
  record button answered by a stream with track 0 in such a browser.\<close>

definition unsupported_env :: recorder_env where
  "unsupported_env =
     \<lparr>env_isTypeSupported = (\<lambda>m. False),
      env_ctor_error = Some \<lparr>name = ''NotSupportedError'', message = ''mimeType is not supported''\<rparr>,
      env_start_error = None, env_now = 1000, env_interval = 1\<rparr>"

definition failed_setup :: voice_page where
  "failed_setup = run (initial_page True) [StartSetupRecording, UserMediaGranted [0] unsupported_env]"

section \<open>Basic facts\<close>

lemma js_slice_last: "js_slice (- 10) xs = drop (length xs - 10) xs"
  by (simp add: js_slice_def Let_def max_def nat_diff_distrib')

lemma js_trim_hello: "js_trim ''hello'' = ''hello''"
  by (simp add: js_trim_def trim_start_def trim_end_def white_space_1_def white_space_2_def
        white_space_3_def)

lemma js_trim_padded: "js_trim ''  hello '' = ''hello''"
  by (simp add: js_trim_def trim_start_def trim_end_def white_space_1_def white_space_2_def
        white_space_3_def)

lemma js_trim_a: "js_trim ''a'' = ''a''"
  by (simp add: js_trim_def trim_start_def trim_end_def white_space_1_def)

lemma js_trim_b: "js_trim ''b'' = ''b''"
  by (simp add: js_trim_def trim_start_def trim_end_def white_space_1_def)

lemma js_trim_c: "js_trim ''c'' = ''c''"
  by (simp add: js_trim_def trim_start_def trim_end_def white_space_1_def)

lemma js_trim_blank: "js_trim ('' '' @ [CHR 0xC2, CHR 0xA0] @ [CHR 0xE2, CHR 0x80, CHR 0xA8, CHR 0x0A]) = []"
  by (simp add: js_trim_def trim_start_def trim_end_def white_space_1_def white_space_2_def
        white_space_3_def)

lemma emitted_emit: "emitted s (emit es s) = es"
  by (simp add: emitted_def emit_def)

lemma chat_emitted_emit: "chat_emitted c (chat_emit es c) = es"
  by (simp add: chat_emitted_def chat_emit_def)

section \<open>The context window\<close>

lemma handleVoiceInput_request:
  "ask_requests (emitted s (handleVoiceInput t s)) =
     (if js_trim t = [] then []
      else [\<lparr>ask_text = t,
             conversation_history = js_slice (- 10) (conversationHistory (handleVoiceInput t s))\<rparr>])"
  by (simp add: handleVoiceInput_def emitted_def emit_def Let_def)

lemma handleVoiceInput_history:
  "conversationHistory (handleVoiceInput t s) =
     (if js_trim t = [] then conversationHistory s
      else conversationHistory s @ [\<lparr>role = ''user'', content = t\<rparr>])"
  by (simp add: handleVoiceInput_def emit_def Let_def)

lemma handleVoiceInput_response_history:
  "prefix (conversationHistory s) (conversationHistory (handleVoiceInput_response out s))"
  by (auto simp: handleVoiceInput_response_def handleVoiceInput_catch_def playAudio_def emit_def
        Let_def split: fetch_outcome.splits sum.splits)

lemma sendMessage_request:
  "generate_requests (chat_emitted c (sendMessage c)) =
     (case messageInput c of
        None \<Rightarrow> []
      | Some v \<Rightarrow>
          if js_trim v = [] then []
          else [\<lparr>prompt = js_trim v,
                 gen_conversation_history = js_slice (- 10) (chat_conversationHistory (sendMessage c))\<rparr>])"
  by (simp add: sendMessage_def chat_emitted_def chat_emit_def Let_def split: option.splits)

lemma sendMessage_history:
  "prefix (chat_conversationHistory c) (chat_conversationHistory (sendMessage c))"
  by (simp add: sendMessage_def chat_emit_def Let_def split: option.splits)

lemma sendMessage_response_history:
  "prefix (chat_conversationHistory c) (chat_conversationHistory (sendMessage_response out c))"
  by (auto simp: sendMessage_response_def sendMessage_catch_def chat_emit_def
        split: fetch_outcome.splits sum.splits)

lemma sendMessage_history_eq:
  "chat_conversationHistory (sendMessage c) =
     (case messageInput c of
        None \<Rightarrow> chat_conversationHistory c
      | Some v \<Rightarrow>
          if js_trim v = [] then chat_conversationHistory c
          else chat_conversationHistory c @ [\<lparr>role = ''user'', content = js_trim v\<rparr>])"
  by (simp add: sendMessage_def chat_emit_def Let_def split: option.splits)

text \<open>
  Claim C1. \<^verbatim>\<open>handleVoiceInput\<close>, for a text that is not blank, pushes the user turn and
  sends one request to the ask endpoint; \<^verbatim>\<open>sendMessage\<close>, for an input that is not blank,
  pushes the user turn (trimmed) and sends one request to the generate endpoint. The
  conversation history in the body of that request is the last 10 turns of the local
  history as it stands when the request is sent (all of it when it has fewer than 10): at
  most 10 turns, a suffix of the local history, hence in the original order. For a blank
  text nothing is pushed and nothing is sent. Neither the sending part of the two
  functions nor the part that handles the response removes a turn: the local history
  before is a prefix of the local history after.
\<close>

theorem context_window_last_10:
  "ask_requests (emitted s (handleVoiceInput t s))
     = (if js_trim t = [] then []
        else [\<lparr>ask_text = t,
               conversation_history =
                 drop (length (conversationHistory s @ [\<lparr>role = ''user'', content = t\<rparr>]) - 10)
                   (conversationHistory s @ [\<lparr>role = ''user'', content = t\<rparr>])\<rparr>])
   \<and> conversationHistory (handleVoiceInput t s)
     = (if js_trim t = [] then conversationHistory s
        else conversationHistory s @ [\<lparr>role = ''user'', content = t\<rparr>])
   \<and> generate_requests (chat_emitted c (sendMessage c))
     = (case messageInput c of
          None \<Rightarrow> []
        | Some v \<Rightarrow>
            if js_trim v = [] then []
            else [\<lparr>prompt = js_trim v,
                   gen_conversation_history =
                     drop (length (chat_conversationHistory c @ [\<lparr>role = ''user'', content = js_trim v\<rparr>]) - 10)
                       (chat_conversationHistory c @ [\<lparr>role = ''user'', content = js_trim v\<rparr>])\<rparr>])
   \<and> chat_conversationHistory (sendMessage c)
     = (case messageInput c of
          None \<Rightarrow> chat_conversationHistory c
        | Some v \<Rightarrow>
            if js_trim v = [] then chat_conversationHistory c
            else chat_conversationHistory c @ [\<lparr>role = ''user'', content = js_trim v\<rparr>])
   \<and> (\<forall>r \<in> set (ask_requests (emitted s (handleVoiceInput t s))).
      conversation_history r
        = drop (length (conversationHistory (handleVoiceInput t s)) - 10)
            (conversationHistory (handleVoiceInput t s))
      \<and> length (conversation_history r) \<le> 10
      \<and> suffix (conversation_history r) (conversationHistory (handleVoiceInput t s)))
   \<and> (\<forall>g \<in> set (generate_requests (chat_emitted c (sendMessage c))).
      gen_conversation_history g
        = drop (length (chat_conversationHistory (sendMessage c)) - 10)
            (chat_conversationHistory (sendMessage c))
      \<and> length (gen_conversation_history g) \<le> 10
      \<and> suffix (gen_conversation_history g) (chat_conversationHistory (sendMessage c)))
   \<and> prefix (conversationHistory s) (conversationHistory (handleVoiceInput t s))
   \<and> prefix (conversationHistory s) (conversationHistory (handleVoiceInput_response out s))
   \<and> prefix (chat_conversationHistory c) (chat_conversationHistory (sendMessage c))
   \<and> prefix (chat_conversationHistory c) (chat_conversationHistory (sendMessage_response gout c))"
proof -
  have sent: "ask_requests (emitted s (handleVoiceInput t s))
     = (if js_trim t = [] then []
        else [\<lparr>ask_text = t,
               conversation_history =
                 drop (length (conversationHistory s @ [\<lparr>role = ''user'', content = t\<rparr>]) - 10)
                   (conversationHistory s @ [\<lparr>role = ''user'', content = t\<rparr>])\<rparr>])"
    by (simp add: handleVoiceInput_request handleVoiceInput_history js_slice_last)
  have pushed: "conversationHistory (handleVoiceInput t s)
     = (if js_trim t = [] then conversationHistory s
        else conversationHistory s @ [\<lparr>role = ''user'', content = t\<rparr>])"
    by (rule handleVoiceInput_history)
  have chat_sent: "generate_requests (chat_emitted c (sendMessage c))
     = (case messageInput c of
          None \<Rightarrow> []
        | Some v \<Rightarrow>
            if js_trim v = [] then []
            else [\<lparr>prompt = js_trim v,
                   gen_conversation_history =
                     drop (length (chat_conversationHistory c @ [\<lparr>role = ''user'', content = js_trim v\<rparr>]) - 10)
                       (chat_conversationHistory c @ [\<lparr>role = ''user'', content = js_trim v\<rparr>])\<rparr>])"
    by (simp add: sendMessage_request sendMessage_history_eq js_slice_last split: option.splits)
  have chat_pushed: "chat_conversationHistory (sendMessage c)
     = (case messageInput c of
          None \<Rightarrow> chat_conversationHistory c
        | Some v \<Rightarrow>
            if js_trim v = [] then chat_conversationHistory c
            else chat_conversationHistory c @ [\<lparr>role = ''user'', content = js_trim v\<rparr>])"
    by (rule sendMessage_history_eq)
  have voice: "\<forall>r \<in> set (ask_requests (emitted s (handleVoiceInput t s))).
      conversation_history r
        = drop (length (conversationHistory (handleVoiceInput t s)) - 10)
            (conversationHistory (handleVoiceInput t s))
      \<and> length (conversation_history r) \<le> 10
      \<and> suffix (conversation_history r) (conversationHistory (handleVoiceInput t s))"
    by (auto simp: handleVoiceInput_request js_slice_last suffix_drop)
  have chat: "\<forall>g \<in> set (generate_requests (chat_emitted c (sendMessage c))).
      gen_conversation_history g
        = drop (length (chat_conversationHistory (sendMessage c)) - 10)
            (chat_conversationHistory (sendMessage c))
      \<and> length (gen_conversation_history g) \<le> 10
      \<and> suffix (gen_conversation_history g) (chat_conversationHistory (sendMessage c))"
    by (auto simp: sendMessage_request js_slice_last suffix_drop split: option.splits)
  have keep: "prefix (conversationHistory s) (conversationHistory (handleVoiceInput t s))"
    by (simp add: handleVoiceInput_history)
  have rest: "prefix (conversationHistory s) (conversationHistory (handleVoiceInput_response out s))
      \<and> prefix (chat_conversationHistory c) (chat_conversationHistory (sendMessage c))
      \<and> prefix (chat_conversationHistory c) (chat_conversationHistory (sendMessage_response gout c))"
    by (simp add: handleVoiceInput_response_history sendMessage_history sendMessage_response_history)
  show ?thesis
    by (intro conjI sent pushed chat_sent chat_pushed voice chat keep rest [THEN conjunct1]
          rest [THEN conjunct2, THEN conjunct1] rest [THEN conjunct2, THEN conjunct2])
qed

text \<open>With eleven turns in the local history, the request for a twelfth carries the last
  ten, and the local history has all twelve: on the voice page for the text \<open>hello\<close>, on
  the chat page for the input \<open>hello\<close> typed with blanks around it.\<close>

theorem context_window_last_10_witness:
  "ask_requests (emitted page_with_history (handleVoiceInput ''hello'' page_with_history))
     = [\<lparr>ask_text = ''hello'',
         conversation_history = drop 2 eleven_turns @ [\<lparr>role = ''user'', content = ''hello''\<rparr>]\<rparr>]
   \<and> conversationHistory (handleVoiceInput ''hello'' page_with_history)
     = eleven_turns @ [\<lparr>role = ''user'', content = ''hello''\<rparr>]
   \<and> generate_requests (chat_emitted chat_with_history (sendMessage chat_with_history))
     = [\<lparr>prompt = ''hello'',
         gen_conversation_history = drop 2 eleven_turns @ [\<lparr>role = ''user'', content = ''hello''\<rparr>]\<rparr>]
   \<and> chat_conversationHistory (sendMessage chat_with_history)
     = eleven_turns @ [\<lparr>role = ''user'', content = ''hello''\<rparr>]
   \<and> length (drop 2 eleven_turns @ [\<lparr>role = ''user'', content = ''hello''\<rparr>]) = 10"
proof -
  have v: "conversationHistory page_with_history = eleven_turns"
    by (simp add: page_with_history_def)
  have c: "chat_conversationHistory chat_with_history = eleven_turns"
    "messageInput chat_with_history = Some ''  hello ''"
    by (simp_all add: chat_with_history_def)
  have n: "length eleven_turns = 11"
    by (simp add: eleven_turns_def)
  from context_window_last_10 [of page_with_history "''hello''" chat_with_history]
  show ?thesis
    by (simp add: v c n js_trim_hello js_trim_padded)
qed

section \<open>Responses of the ask endpoint\<close>

lemma initial_page_history: "conversationHistory (initial_page r) = []"
  by (simp add: initial_page_def)

text \<open>
  Claim C5. When the ask endpoint answers with a body \<open>{success: false, error: X}\<close>
  (whatever the HTTP status), the rest of \<^verbatim>\<open>handleVoiceInput\<close> does exactly two things:
  it puts the waveform back to its idle look (no state class) and shows the status
  \<open>Error: X\<close> of type \<open>error\<close> (for an empty \<open>X\<close>, the fallback text of the branch
  taken). The variables of the page are unchanged, so the page accepts the next
  recording. No effect of the Speaking state is issued: the waveform is never set to
  \<open>active\<close>, the status never to \<open>speaking\<close>, and the audio element is never played.
\<close>

theorem ask_failure_never_speaks:
  assumes "json r = Inr d" and "\<not> success d" and "error d = Some X"
  shows "handleVoiceInput_response (Responded r) s =
           emit [SetWaveformState '''',
                 UpdateStatus
                   (''Error: '' @ js_or (Some X)
                      (if ok r then ''Failed to get response''
                       else ''HTTP '' @ show_nat (status r) @ '': '' @ statusText r))
                   ''error''] s
         \<and> \<not> list_ex speaking_effect (emitted s (handleVoiceInput_response (Responded r) s))"
proof -
  have eq: "handleVoiceInput_response (Responded r) s =
           emit [SetWaveformState '''',
                 UpdateStatus
                   (''Error: '' @ js_or (Some X)
                      (if ok r then ''Failed to get response''
                       else ''HTTP '' @ show_nat (status r) @ '': '' @ statusText r))
                   ''error''] s"
    using assms by (simp add: handleVoiceInput_response_def handleVoiceInput_catch_def)
  show ?thesis
    unfolding eq emitted_emit by simp
qed

theorem ask_failure_never_speaks_witness:
  "handleVoiceInput_response (Responded failure_response) (initial_page True) =
     emit [SetWaveformState '''', UpdateStatus ''Error: X'' ''error''] (initial_page True)
   \<and> \<not> list_ex speaking_effect
        (emitted (initial_page True)
           (handleVoiceInput_response (Responded failure_response) (initial_page True)))"
  using ask_failure_never_speaks [of failure_response
      "\<lparr>success = False, response_text = [], audio_url = None, error = Some ''X''\<rparr>"
      "''X''" "initial_page True"]
  by (simp add: failure_response_def js_or_def emitted_emit)

text \<open>Whatever its HTTP status, a response without an audio URL never leads to the
  Speaking state.\<close>

lemma response_without_audio_never_speaks:
  assumes "json r = Inr d" and "audio_url d = None"
  shows "\<not> list_ex speaking_effect (emitted s (handleVoiceInput_response (Responded r) s))"
  using assms
  by (simp add: handleVoiceInput_response_def handleVoiceInput_catch_def js_truthy_def
        emitted_def emit_def)

text \<open>
  Claim C6. When the ask endpoint answers a 2xx response whose body has \<open>success\<close> true
  and no audio URL, the rest of \<^verbatim>\<open>handleVoiceInput\<close> appends the assistant turn, puts the
  waveform back to its idle look and shows \<open>Ready to listen\<close> of type \<open>ready\<close>, and
  does nothing else: no effect of the Speaking state is issued.
\<close>

theorem ask_success_without_audio_goes_idle:
  assumes "ok r" and "json r = Inr d" and "success d" and "audio_url d = None"
  shows "handleVoiceInput_response (Responded r) s =
           emit [SetWaveformState '''', UpdateStatus ''Ready to listen'' ''ready'']
             (s\<lparr>conversationHistory :=
                  conversationHistory s @ [\<lparr>role = ''assistant'', content = response_text d\<rparr>]\<rparr>)
         \<and> \<not> list_ex speaking_effect (emitted s (handleVoiceInput_response (Responded r) s))"
  using assms
  by (simp add: handleVoiceInput_response_def js_truthy_def emitted_def emit_def)

theorem ask_success_without_audio_goes_idle_witness:
  "handleVoiceInput_response (Responded silent_response) (initial_page True) =
     emit [SetWaveformState '''', UpdateStatus ''Ready to listen'' ''ready'']
       ((initial_page True)\<lparr>conversationHistory := [\<lparr>role = ''assistant'', content = ''hi there''\<rparr>]\<rparr>)
   \<and> \<not> list_ex speaking_effect
        (emitted (initial_page True)
           (handleVoiceInput_response (Responded silent_response) (initial_page True)))"
  using ask_success_without_audio_goes_idle [of silent_response
      "\<lparr>success = True, response_text = ''hi there'', audio_url = None, error = None\<rparr>"
      "initial_page True"]
  by (simp add: silent_response_def initial_page_history emitted_def emit_def)

section \<open>The end of a voice-sample recording\<close>

lemma stopped_recording_eq:
  "stopped_recording = 
     \<lparr>recognition = True, isRecording = False, conversationHistory = [],
      mediaRecorder = Some 0, audioChunks = [chunk_a, chunk_b], isRecordingSetup = False,
      recordingStartTime = Some 1000, recordingTimer = None, audioPlayer = True,
      recorders = [\<lparr>rec_stream = [0], rec_mimeType = ''audio/webm;codecs=opus'', rec_state = ''inactive''\<rparr>],
      pendingUserMedia = 0,
      fx = [GetUserMedia, RecorderStart 0 1000, ClassAdd ''recordBtn'' ''recording'',
            ClassAdd ''statusDot'' ''recording'',
            SetTextContent ''recordingStatusText'' ''Recording...'',
            SetDisplay ''recordingTimer'' ''block'', SetInterval 1, RecorderStop 0, ClearInterval 1,
            ClassRemove ''recordBtn'' ''recording'', ClassRemove ''statusDot'' ''recording'',
            SetTextContent ''recordingStatusText'' ''Processing...'']\<rparr>"
  by (simp add: stopped_recording_def run_def initial_page_def granted_env_def
      startSetupRecording_def startSetupRecording_granted_def stopSetupRecording_def
      mediaRecorder_ondataavailable_def emit_def choose_mimeType_def Let_def blob_size_def chunk_a_def chunk_b_def)

lemma uploads_append: "uploads (xs @ ys) = uploads xs @ uploads ys"
  by (induction xs rule: uploads.induct) simp_all

lemma uploads_TrackStop: "uploads (map TrackStop ts) = []"
  by (induction ts) simp_all

lemma actualDuration_fx: "actualDuration now (s\<lparr>fx := es\<rparr>) = actualDuration now s"
  by (simp add: actualDuration_def)

lemma onstop_short:
  assumes "rid < length (recorders s)" and "actualDuration now s < 30"
  shows "mediaRecorder_onstop rid now s =
           (emit (map TrackStop (rec_stream (recorders s ! rid)) @
                  [ShowRecordingResult
                     (''Recording too short ('' @ show_int (Math_round (actualDuration now s))
                        @ ''s). Please record at least 30 seconds.'') ''error'',
                   ClassRemove ''recordBtn'' ''recording'',
                   ClassRemove ''statusDot'' ''recording'',
                   SetTextContent ''recordingStatusText'' ''Ready to record'',
                   SetDisplay ''recordingTimer'' ''none'']) s)\<lparr>isRecordingSetup := False\<rparr>"
  using assms
  by (simp add: mediaRecorder_onstop_def Let_def actualDuration_fx resetRecordingUI_def
        showRecordingResult_def emit_def)

lemma onstop_long:
  assumes "rid < length (recorders s)" and "30 \<le> actualDuration now s"
  shows "mediaRecorder_onstop rid now s =
           emit (map TrackStop (rec_stream (recorders s ! rid)) @
                 [SetTextContent ''recordingStatusText'' ''Uploading and creating voice clone...'',
                  FetchUpload (API_BASE @ ''/voice/upload-sample/'') True
                    [(''audio_file'',
                      \<lparr>blob_bytes = concat (map blob_bytes (audioChunks s)),
                       blob_type = ''audio/webm'', file_name = ''voice-sample.webm''\<rparr>)]]) s"
  using assms
  by (simp add: mediaRecorder_onstop_def Let_def actualDuration_fx uploadRecording_def
        new_File_def new_Blob_def emit_def)

lemma uploadRecording_response_uploads:
  "uploads (emitted s (uploadRecording_response out s)) = []"
  by (simp add: uploadRecording_response_def uploadRecording_catch_def showRecordingResult_def
        emitted_def emit_def split: fetch_outcome.splits sum.splits)

text \<open>
  Claim C2. When the \<^verbatim>\<open>onstop\<close> handler of a recorder runs and the time elapsed since
  \<^verbatim>\<open>recordingStartTime\<close> is less than 30 seconds, the handler issues no upload; it shows
  the message \<open>Recording too short (...)\<close> of type \<open>error\<close>, and ends with
  \<^verbatim>\<open>resetRecordingUI\<close>: the recording classes are removed, the status text is
  \<open>Ready to record\<close>, the timer is hidden and \<^verbatim>\<open>isRecordingSetup\<close> is false.
\<close>

theorem short_recording_not_uploaded:
  assumes "rid < length (recorders s)" and "actualDuration now s < 30"
  shows "uploads (emitted s (mediaRecorder_onstop rid now s)) = []
       \<and> ShowRecordingResult
            (''Recording too short ('' @ show_int (Math_round (actualDuration now s))
               @ ''s). Please record at least 30 seconds.'') ''error''
           \<in> set (emitted s (mediaRecorder_onstop rid now s))
       \<and> \<not> isRecordingSetup (mediaRecorder_onstop rid now s)
       \<and> drop (length (rec_stream (recorders s ! rid)) + 1) (emitted s (mediaRecorder_onstop rid now s))
           = [ClassRemove ''recordBtn'' ''recording'',
              ClassRemove ''statusDot'' ''recording'',
              SetTextContent ''recordingStatusText'' ''Ready to record'',
              SetDisplay ''recordingTimer'' ''none'']"
  unfolding onstop_short [OF assms]
  by (simp add: emitted_def emit_def uploads_append uploads_TrackStop)

theorem short_recording_not_uploaded_witness:
  "actualDuration 30999 stopped_recording < 30
   \<and> emitted stopped_recording (mediaRecorder_onstop 0 30999 stopped_recording)
       = [TrackStop 0,
          ShowRecordingResult ''Recording too short (30s). Please record at least 30 seconds.'' ''error'',
          ClassRemove ''recordBtn'' ''recording'',
          ClassRemove ''statusDot'' ''recording'',
          SetTextContent ''recordingStatusText'' ''Ready to record'',
          SetDisplay ''recordingTimer'' ''none'']
   \<and> uploads (emitted stopped_recording (mediaRecorder_onstop 0 30999 stopped_recording)) = []
   \<and> isRecordingSetup (mediaRecorder_onstop 0 30999 stopped_recording) = False"
proof -
  have d: "actualDuration 30999 stopped_recording = 29999 / 1000"
    by (simp add: actualDuration_def stopped_recording_eq)
  have r: "show_int (Math_round (29999 / 1000)) = ''30''"
    by code_simp
  have n: "0 < length (recorders stopped_recording)"
    by (simp add: stopped_recording_eq)
  have lt: "actualDuration 30999 stopped_recording < 30"
    by (simp add: d)
  have st: "rec_stream (recorders stopped_recording ! 0) = [0]"
    by (simp add: stopped_recording_eq)
  from short_recording_not_uploaded [OF n lt] lt show ?thesis
    by (simp add: onstop_short [OF n lt] d r st emitted_def emit_def)
qed

text \<open>
  Claim C3. When the \<^verbatim>\<open>onstop\<close> handler of a recorder runs and the time elapsed since
  \<^verbatim>\<open>recordingStartTime\<close> is at least 30 seconds, the handler issues exactly one upload:
  a form with the single field \<open>audio_file\<close>, whose file holds the bytes of all buffered
  chunks, concatenated in order. The part of \<^verbatim>\<open>uploadRecording\<close> that handles the
  response issues no further upload.
\<close>

theorem long_recording_uploaded_once:
  assumes "rid < length (recorders s)" and "30 \<le> actualDuration now s"
  shows "uploads (emitted s (mediaRecorder_onstop rid now s))
           = [[(''audio_file'',
                \<lparr>blob_bytes = concat (map blob_bytes (audioChunks s)),
                 blob_type = ''audio/webm'', file_name = ''voice-sample.webm''\<rparr>)]]
       \<and> uploads (emitted s' (uploadRecording_response out s')) = []"
  unfolding onstop_long [OF assms]
  by (simp add: emitted_emit uploads_append uploads_TrackStop uploadRecording_response_uploads)

theorem long_recording_uploaded_once_witness:
  "30 \<le> actualDuration 31000 stopped_recording
   \<and> uploads (emitted stopped_recording (mediaRecorder_onstop 0 31000 stopped_recording))
       = [[(''audio_file'',
            \<lparr>blob_bytes = [1, 2, 3], blob_type = ''audio/webm'', file_name = ''voice-sample.webm''\<rparr>)]]"
proof -
  have n: "0 < length (recorders stopped_recording)"
    by (simp add: stopped_recording_eq)
  have ge: "30 \<le> actualDuration 31000 stopped_recording"
    by (simp add: actualDuration_def stopped_recording_eq)
  from long_recording_uploaded_once [OF n ge] ge show ?thesis
    by (simp add: stopped_recording_eq chunk_a_def chunk_b_def)
qed

section \<open>Text to speech on the chat page\<close>

text \<open>
  Claim C7. \<^verbatim>\<open>speakResponse\<close>, the only place of chat.js that calls the synthesiser,
  calls \<^verbatim>\<open>cancel()\<close> and then \<^verbatim>\<open>speak(utterance)\<close>, in this order. Whatever the queue
  of the synthesiser held, it holds the new utterance alone afterwards; so after two
  calls in succession only the second utterance is queued. Without the synthesiser
  nothing is issued.
\<close>

theorem speech_last_write_wins:
  "speechSynthesis (speakResponse t c)
     = (case speechSynthesis c of None \<Rightarrow> None | Some q \<Rightarrow> Some [new_utterance t])
   \<and> chat_emitted c (speakResponse t c)
     = (case speechSynthesis c of None \<Rightarrow> [] | Some q \<Rightarrow> [SynthCancel, SynthSpeak (new_utterance t)])
   \<and> speechSynthesis (speakResponse t2 (speakResponse t1 c))
     = (case speechSynthesis c of None \<Rightarrow> None | Some q \<Rightarrow> Some [new_utterance t2])"
  by (simp add: speakResponse_def synth_cancel_def synth_speak_def chat_emitted_def chat_emit_def
        split: option.splits)

theorem speech_last_write_wins_witness:
  "speechSynthesis (speakResponse ''second'' (speakResponse ''first'' silent_chat))
     = Some [\<lparr>utt_text = ''second'', rate = 1, pitch = 1, volume = 1, lang = ''en-US''\<rparr>]
   \<and> chat_fx (speakResponse ''second'' (speakResponse ''first'' silent_chat))
     = [SynthCancel, SynthSpeak (new_utterance ''first''), SynthCancel, SynthSpeak (new_utterance ''second'')]"
  using speech_last_write_wins [of "''second''" "speakResponse ''first'' silent_chat" "''first''" "''second''"]
  by (simp add: speakResponse_def synth_cancel_def synth_speak_def chat_emit_def silent_chat_def new_utterance_def)

section \<open>Selecting files\<close>

lemma find_same_key: "(List.find (\<lambda>g. file_name g = file_name f \<and> blob_size g = blob_size f) sel \<noteq> None) = list_ex (same_key f) sel"
  by (auto simp: find_None_iff list_ex_iff same_key_def)

lemma push_if_new_known: "list_ex (same_key f) sel \<Longrightarrow> push_if_new sel f = sel"
  using find_same_key [of f sel] by (simp add: push_if_new_def)

lemma push_if_new_keeps: "list_ex (same_key f) sel \<Longrightarrow> list_ex (same_key f) (push_if_new sel g)"
  by (simp add: push_if_new_def list_ex_iff)

lemma push_if_new_has: "list_ex (same_key f) (push_if_new sel f)"
  using find_same_key [of f sel] by (auto simp: push_if_new_def list_ex_iff same_key_def)

lemma fold_keeps: "list_ex (same_key f) sel \<Longrightarrow> list_ex (same_key f) (foldl push_if_new sel fs)"
  by (induction fs arbitrary: sel) (simp_all add: push_if_new_keeps)

lemma fold_has: "f \<in> set fs \<Longrightarrow> list_ex (same_key f) (foldl push_if_new sel fs)"
proof (induction fs arbitrary: sel)
  case Nil
  then show ?case by simp
next
  case (Cons g fs)
  show ?case
  proof (cases "f = g")
    case True
    then show ?thesis by (simp add: fold_keeps push_if_new_has)
  next
    case False
    with Cons show ?thesis by simp
  qed
qed

lemma fold_known: "(\<And>f. f \<in> set fs \<Longrightarrow> list_ex (same_key f) sel) \<Longrightarrow> foldl push_if_new sel fs = sel"
  by (induction fs arbitrary: sel) (simp_all add: push_if_new_known)

lemma fold_subset_known:
  "set gs \<subseteq> set fs \<Longrightarrow> foldl push_if_new (foldl push_if_new sel fs) gs = foldl push_if_new sel fs"
  by (rule fold_known) (auto intro: fold_has)

text \<open>
  Claim C10. Applying \<^verbatim>\<open>handleFiles\<close> twice with the same list of files leaves the
  picker (selected files, rendered list, upload button) as applying it once does. An
  incoming file that a selected file matches in name and size is skipped; one that
  none matches is pushed at the end.
\<close>

theorem handleFiles_idempotent:
  "handleFiles files (handleFiles files p) = handleFiles files p
   \<and> (if List.find (\<lambda>g. file_name g = file_name f \<and> blob_size g = blob_size f) (selectedFiles p) = None
       then selectedFiles (handleFiles [f] p) = selectedFiles p @ [f]
       else selectedFiles (handleFiles [f] p) = selectedFiles p)"
  by (simp add: handleFiles_def updateFileList_def updateUploadButton_def fold_subset_known push_if_new_def)

theorem handleFiles_idempotent_witness:
  "selectedFiles (handleFiles [cv_file, other_cv_file, essay_file] empty_picker) = [cv_file, essay_file]
   \<and> handleFiles [cv_file, other_cv_file, essay_file]
       (handleFiles [cv_file, other_cv_file, essay_file] empty_picker)
     = \<lparr>selectedFiles = [cv_file, essay_file], fileList = [(''cv.txt'', 2), (''essay.txt'', 1)],
        uploadBtn_disabled = False\<rparr>"
proof -
  have once: "handleFiles [cv_file, other_cv_file, essay_file] empty_picker
     = \<lparr>selectedFiles = [cv_file, essay_file], fileList = [(''cv.txt'', 2), (''essay.txt'', 1)],
        uploadBtn_disabled = False\<rparr>"
    by (simp add: handleFiles_def updateFileList_def updateUploadButton_def push_if_new_def
          empty_picker_def cv_file_def other_cv_file_def essay_file_def blob_size_def)
  from handleFiles_idempotent [of "[cv_file, other_cv_file, essay_file]" empty_picker cv_file]
  show ?thesis
    by (simp add: once)
qed

section \<open>The local history only grows\<close>

lemma handleVoiceInput_response_failed:
  "ask_failed out \<Longrightarrow> conversationHistory (handleVoiceInput_response out s) = conversationHistory s"
  by (cases out)
     (auto simp: handleVoiceInput_response_def handleVoiceInput_catch_def emit_def
        split: sum.splits if_splits)

lemma emit_history: "conversationHistory (emit es s) = conversationHistory s"
  by (simp add: emit_def)

lemma stopRecording_history: "conversationHistory (stopRecording s) = conversationHistory s"
  by (simp add: stopRecording_def emit_def)

lemma startRecording_history: "conversationHistory (startRecording th s) = conversationHistory s"
  by (simp add: startRecording_def stopRecording_def emit_def Let_def)

lemma resetRecordingUI_history: "conversationHistory (resetRecordingUI s) = conversationHistory s"
  by (simp add: resetRecordingUI_def emit_def)

lemma startSetupRecording_catch_history:
  "conversationHistory (startSetupRecording_catch e s) = conversationHistory s"
  by (simp add: startSetupRecording_catch_def resetRecordingUI_history showRecordingResult_def emit_def)

lemma startSetupRecording_granted_history:
  "conversationHistory (startSetupRecording_granted st env s) = conversationHistory s"
  by (simp add: startSetupRecording_granted_def startSetupRecording_catch_history emit_def Let_def
        split: option.splits)

lemma stopSetupRecording_history: "conversationHistory (stopSetupRecording s) = conversationHistory s"
  by (simp add: stopSetupRecording_def emit_def Let_def split: option.splits)

lemma mediaRecorder_onstop_history:
  "conversationHistory (mediaRecorder_onstop rid now s) = conversationHistory s"
  by (simp add: mediaRecorder_onstop_def resetRecordingUI_history showRecordingResult_def
        uploadRecording_def emit_def Let_def)

lemma uploadRecording_response_history:
  "conversationHistory (uploadRecording_response out s) = conversationHistory s"
  by (simp add: uploadRecording_response_def uploadRecording_catch_def showRecordingResult_def
        emit_def split: fetch_outcome.splits sum.splits)

lemma step_history: "prefix (conversationHistory s) (conversationHistory (step s e))"
proof (cases e)
  case (RecognitionResult t)
  then show ?thesis by (simp add: handleVoiceInput_history)
next
  case (AskSettled out)
  then show ?thesis by (simp add: handleVoiceInput_response_history)
qed (simp_all add: startRecording_history stopRecording_history recognition_onerror_def
       recognition_onend_def emit_history startSetupRecording_def
       startSetupRecording_granted_history startSetupRecording_rejected_def
       startSetupRecording_catch_history stopSetupRecording_history
       mediaRecorder_ondataavailable_def mediaRecorder_onerror_def showRecordingResult_def
       mediaRecorder_onstop_history uploadRecording_response_history)

lemma run_history: "prefix (conversationHistory s) (conversationHistory (run s evs))"
  unfolding run_def
proof (induction evs arbitrary: s)
  case Nil
  show ?case by simp
next
  case (Cons e evs)
  have "prefix (conversationHistory s) (conversationHistory (step s e))"
    by (rule step_history)
  also have "prefix (conversationHistory (step s e)) (conversationHistory (foldl step (step s e) evs))"
    by (rule Cons.IH)
  finally show ?case by simp
qed

lemma turn_in_window:
  assumes "prefix (h @ [x]) H" and "length H \<le> length h + 10"
  shows "x \<in> set (drop (length H - 10) H)"
proof -
  from assms(1) obtain rest where H: "H = h @ [x] @ rest"
    by (auto simp: prefix_def)
  have "length H - 10 \<le> length h"
    using assms(2) by simp
  then show ?thesis
    by (simp add: H)
qed

section \<open>A failed exchange and the requests after it\<close>

lemma later_window:
  assumes t: "js_trim t \<noteq> []"
    and s2_def: "s2 = run (handleVoiceInput t s) evs"
    and r: "r \<in> set (ask_requests (emitted s2 (handleVoiceInput t' s2)))"
  shows "conversation_history r
           = drop (length (conversationHistory (handleVoiceInput t' s2)) - 10)
               (conversationHistory (handleVoiceInput t' s2))"
    and "length (conversationHistory (handleVoiceInput t' s2)) \<le> length (conversationHistory s) + 10
         \<Longrightarrow> \<lparr>role = ''user'', content = t\<rparr> \<in> set (conversation_history r)"
proof -
  from r show w: "conversation_history r
           = drop (length (conversationHistory (handleVoiceInput t' s2)) - 10)
               (conversationHistory (handleVoiceInput t' s2))"
    by (auto simp: handleVoiceInput_request js_slice_last split: if_splits)
  have "prefix (conversationHistory (handleVoiceInput t s)) (conversationHistory s2)"
    unfolding s2_def by (rule run_history)
  also have "prefix (conversationHistory s2) (conversationHistory (handleVoiceInput t' s2))"
    by (simp add: handleVoiceInput_history)
  finally have p: "prefix (conversationHistory s @ [\<lparr>role = ''user'', content = t\<rparr>])
                     (conversationHistory (handleVoiceInput t' s2))"
    using t by (simp add: handleVoiceInput_history)
  assume "length (conversationHistory (handleVoiceInput t' s2)) \<le> length (conversationHistory s) + 10"
  with p show "\<lparr>role = ''user'', content = t\<rparr> \<in> set (conversation_history r)"
    unfolding w by (rule turn_in_window)
qed

lemma after_failed_turn_eq:
  "after_failed_turn =
     (initial_page True)
       \<lparr>conversationHistory := [\<lparr>role = ''user'', content = ''a''\<rparr>],
        fx := [SetWaveformState ''processing'', UpdateStatus ''Getting response...'' ''processing'',
               FetchAsk ''/api/voice/ask/'' True
                 \<lparr>ask_text = ''a'', conversation_history = [\<lparr>role = ''user'', content = ''a''\<rparr>]\<rparr>,
               SetWaveformState '''', UpdateStatus ''Error: Failed to fetch'' ''error'']\<rparr>"
  by (simp add: after_failed_turn_def run_def handleVoiceInput_def handleVoiceInput_response_def
        handleVoiceInput_catch_def emit_def Let_def js_trim_hello js_trim_a js_trim_b js_trim_c js_slice_def
        initial_page_def API_BASE_def)

lemma later_page_history:
  "conversationHistory later_page =
     [\<lparr>role = ''user'', content = ''a''\<rparr>,
      \<lparr>role = ''user'', content = ''b''\<rparr>, \<lparr>role = ''assistant'', content = ''hi there''\<rparr>,
      \<lparr>role = ''user'', content = ''b''\<rparr>, \<lparr>role = ''assistant'', content = ''hi there''\<rparr>,
      \<lparr>role = ''user'', content = ''b''\<rparr>, \<lparr>role = ''assistant'', content = ''hi there''\<rparr>,
      \<lparr>role = ''user'', content = ''b''\<rparr>, \<lparr>role = ''assistant'', content = ''hi there''\<rparr>,
      \<lparr>role = ''user'', content = ''b''\<rparr>, \<lparr>role = ''assistant'', content = ''hi there''\<rparr>]"
  by (simp add: later_page_def one_exchange_def run_def after_failed_turn_eq silent_response_def
        handleVoiceInput_history handleVoiceInput_response_def js_truthy_def emit_history
        js_trim_hello js_trim_a js_trim_b js_trim_c initial_page_history)

text \<open>
  Claim C9, as stated, fails: the context window of a later request holds the last 10
  turns only. After a first exchange that fails (turn \<open>a\<close>) and five exchanges that
  succeed, the local history has 11 turns and still starts with the failed turn, but
  the window of the next request (turn \<open>c\<close>) starts after it.
\<close>

theorem failed_turn_leaves_window_counterexample:
  "ask_failed (Rejected ''Failed to fetch'')
   \<and> conversationHistory after_failed_turn = [\<lparr>role = ''user'', content = ''a''\<rparr>]
   \<and> ask_requests (emitted later_page (handleVoiceInput ''c'' later_page))
       = [\<lparr>ask_text = ''c'',
           conversation_history =
             [\<lparr>role = ''assistant'', content = ''hi there''\<rparr>,
              \<lparr>role = ''user'', content = ''b''\<rparr>, \<lparr>role = ''assistant'', content = ''hi there''\<rparr>,
              \<lparr>role = ''user'', content = ''b''\<rparr>, \<lparr>role = ''assistant'', content = ''hi there''\<rparr>,
              \<lparr>role = ''user'', content = ''b''\<rparr>, \<lparr>role = ''assistant'', content = ''hi there''\<rparr>,
              \<lparr>role = ''user'', content = ''b''\<rparr>, \<lparr>role = ''assistant'', content = ''hi there''\<rparr>,
              \<lparr>role = ''user'', content = ''c''\<rparr>]\<rparr>]
   \<and> \<lparr>role = ''user'', content = ''a''\<rparr> \<notin> set
         [\<lparr>role = ''assistant'', content = ''hi there''\<rparr>,
          \<lparr>role = ''user'', content = ''b''\<rparr>, \<lparr>role = ''assistant'', content = ''hi there''\<rparr>,
          \<lparr>role = ''user'', content = ''b''\<rparr>, \<lparr>role = ''assistant'', content = ''hi there''\<rparr>,
          \<lparr>role = ''user'', content = ''b''\<rparr>, \<lparr>role = ''assistant'', content = ''hi there''\<rparr>,
          \<lparr>role = ''user'', content = ''b''\<rparr>, \<lparr>role = ''assistant'', content = ''hi there''\<rparr>,
          \<lparr>role = ''user'', content = ''c''\<rparr>]"
  by (simp add: after_failed_turn_eq initial_page_history later_page_history handleVoiceInput_request
        handleVoiceInput_history js_slice_last js_trim_hello js_trim_a js_trim_b js_trim_c)

text \<open>
  Claim C9, amended. On the voice page, when the ask exchange fails (the fetch rejects,
  the response is not 2xx, its body does not parse, or the body has \<open>success\<close>
  false), the user turn pushed before the request stays in
  the local history: the error path changes no turn, and whatever the page does
  afterwards, the history up to and including that turn remains a prefix of the local
  history. The window of a later request is the last 10 turns of the local history at
  that moment; it includes the failed turn whenever that history has at most 10 turns
  from the failed turn on.
\<close>

theorem failed_turn_stays_in_history:
  assumes "js_trim t \<noteq> []" and "ask_failed out"
  shows "conversationHistory (handleVoiceInput_response out (handleVoiceInput t s))
           = conversationHistory s @ [\<lparr>role = ''user'', content = t\<rparr>]
       \<and> prefix (conversationHistory s @ [\<lparr>role = ''user'', content = t\<rparr>])
           (conversationHistory (run (handleVoiceInput t s) evs))
       \<and> (\<forall>r \<in> set (ask_requests (emitted (run (handleVoiceInput t s) evs)
                                     (handleVoiceInput t' (run (handleVoiceInput t s) evs)))).
            conversation_history r
              = drop (length (conversationHistory (handleVoiceInput t' (run (handleVoiceInput t s) evs))) - 10)
                  (conversationHistory (handleVoiceInput t' (run (handleVoiceInput t s) evs)))
            \<and> (length (conversationHistory (handleVoiceInput t' (run (handleVoiceInput t s) evs)))
                   \<le> length (conversationHistory s) + 10
                 \<longrightarrow> \<lparr>role = ''user'', content = t\<rparr> \<in> set (conversation_history r)))"
proof -
  have a: "conversationHistory (handleVoiceInput_response out (handleVoiceInput t s))
           = conversationHistory s @ [\<lparr>role = ''user'', content = t\<rparr>]"
    using assms by (simp add: handleVoiceInput_response_failed handleVoiceInput_history)
  have b: "prefix (conversationHistory s @ [\<lparr>role = ''user'', content = t\<rparr>])
           (conversationHistory (run (handleVoiceInput t s) evs))"
    using run_history [of "handleVoiceInput t s" evs] assms(1)
    by (simp add: handleVoiceInput_history)
  from a b show ?thesis
    using later_window [OF assms(1) refl]
    by blast
qed

theorem failed_turn_stays_in_history_witness:
  "js_trim ''a'' \<noteq> [] \<and> ask_failed (Rejected ''Failed to fetch'')
   \<and> conversationHistory page_after_retry
       = [\<lparr>role = ''user'', content = ''a''\<rparr>,
          \<lparr>role = ''user'', content = ''b''\<rparr>, \<lparr>role = ''assistant'', content = ''hi there''\<rparr>]
   \<and> ask_requests (emitted page_after_retry (handleVoiceInput ''c'' page_after_retry))
       = [\<lparr>ask_text = ''c'',
           conversation_history =
             [\<lparr>role = ''user'', content = ''a''\<rparr>,
              \<lparr>role = ''user'', content = ''b''\<rparr>, \<lparr>role = ''assistant'', content = ''hi there''\<rparr>,
              \<lparr>role = ''user'', content = ''c''\<rparr>]\<rparr>]"
proof -
  have t: "js_trim ''a'' \<noteq> []"
    by (simp add: js_trim_hello js_trim_a js_trim_b js_trim_c)
  have f: "ask_failed (Rejected ''Failed to fetch'')"
    by simp
  have h: "conversationHistory page_after_retry
       = [\<lparr>role = ''user'', content = ''a''\<rparr>,
          \<lparr>role = ''user'', content = ''b''\<rparr>, \<lparr>role = ''assistant'', content = ''hi there''\<rparr>]"
    by (simp add: page_after_retry_def one_exchange_def run_def silent_response_def
          handleVoiceInput_history handleVoiceInput_response_def handleVoiceInput_catch_def
          js_truthy_def emit_history js_trim_hello js_trim_a js_trim_b js_trim_c initial_page_history)
  from failed_turn_stays_in_history [OF t f, of "initial_page True"
      "AskSettled (Rejected ''Failed to fetch'') # one_exchange" "''c''"]
  show ?thesis
    by (simp add: t h handleVoiceInput_request handleVoiceInput_history js_slice_last
          js_trim_hello js_trim_a js_trim_b js_trim_c)
qed

section \<open>Starting a recording twice\<close>

text \<open>While the flag of a recording is set, starting again changes nothing: no effect
  is issued, no microphone is requested and no recorder is created.\<close>

lemma startRecording_while_recording: "isRecording s \<Longrightarrow> startRecording th s = s"
  by (simp add: startRecording_def)

lemma startSetupRecording_while_recording: "isRecordingSetup s \<Longrightarrow> startSetupRecording s = s"
  by (simp add: startSetupRecording_def)

lemma double_start_eq:
  "double_start =
     \<lparr>recognition = True, isRecording = False, conversationHistory = [],
      mediaRecorder = Some 1, audioChunks = [], isRecordingSetup = True,
      recordingStartTime = Some 1010, recordingTimer = Some 1, audioPlayer = True,
      recorders = [\<lparr>rec_stream = [0], rec_mimeType = ''audio/webm;codecs=opus'', rec_state = ''recording''\<rparr>,
                   \<lparr>rec_stream = [1], rec_mimeType = ''audio/webm;codecs=opus'', rec_state = ''recording''\<rparr>],
      pendingUserMedia = 0,
      fx = [GetUserMedia, GetUserMedia,
            RecorderStart 0 1000, ClassAdd ''recordBtn'' ''recording'',
            ClassAdd ''statusDot'' ''recording'',
            SetTextContent ''recordingStatusText'' ''Recording...'',
            SetDisplay ''recordingTimer'' ''block'', SetInterval 1,
            RecorderStart 1 1000, ClassAdd ''recordBtn'' ''recording'',
            ClassAdd ''statusDot'' ''recording'',
            SetTextContent ''recordingStatusText'' ''Recording...'',
            SetDisplay ''recordingTimer'' ''block'', SetInterval 1]\<rparr>"
  by (simp add: double_start_def run_def initial_page_def granted_env_def
      startSetupRecording_def startSetupRecording_granted_def emit_def choose_mimeType_def Let_def)

text \<open>
  Claim C4, at an input where the code departs from it. \<^verbatim>\<open>startSetupRecording\<close> sets
  \<^verbatim>\<open>isRecordingSetup\<close> only after \<^verbatim>\<open>await getUserMedia\<close>. After a first press the flag
  is still false, so a second press before the microphone request is answered passes
  the guard as well; when both requests are granted, two recorders are capturing.
  \<^verbatim>\<open>mediaRecorder\<close> refers to the second only: stopping the recording stops that one, and
  the first keeps capturing with its track never stopped.
\<close>

theorem double_start_two_sessions:
  "isRecordingSetup (run (initial_page True) [StartSetupRecording]) = False
   \<and> recorders double_start
       = [\<lparr>rec_stream = [0], rec_mimeType = ''audio/webm;codecs=opus'', rec_state = ''recording''\<rparr>,
          \<lparr>rec_stream = [1], rec_mimeType = ''audio/webm;codecs=opus'', rec_state = ''recording''\<rparr>]
   \<and> active_recorders double_start = 2
   \<and> recorders (run double_start [StopSetupRecording, RecorderStopped 1 40000])
       = [\<lparr>rec_stream = [0], rec_mimeType = ''audio/webm;codecs=opus'', rec_state = ''recording''\<rparr>,
          \<lparr>rec_stream = [1], rec_mimeType = ''audio/webm;codecs=opus'', rec_state = ''inactive''\<rparr>]
   \<and> TrackStop 0 \<notin> set (fx (run double_start [StopSetupRecording, RecorderStopped 1 40000]))"
  by (simp add: double_start_eq active_recorders_def)
     (simp add: run_def initial_page_def startSetupRecording_def stopSetupRecording_def
        mediaRecorder_onstop_def actualDuration_def uploadRecording_def new_File_def new_Blob_def
        emit_def Let_def)

section \<open>Releasing the microphone\<close>

lemma failed_setup_eq:
  "failed_setup =
     \<lparr>recognition = True, isRecording = False, conversationHistory = [],
      mediaRecorder = None, audioChunks = [], isRecordingSetup = False,
      recordingStartTime = None, recordingTimer = None, audioPlayer = True,
      recorders = [], pendingUserMedia = 0,
      fx = [GetUserMedia,
            ShowRecordingResult ''Error accessing microphone. mimeType is not supported'' ''error'',
            ClassRemove ''recordBtn'' ''recording'', ClassRemove ''statusDot'' ''recording'',
            SetTextContent ''recordingStatusText'' ''Ready to record'',
            SetDisplay ''recordingTimer'' ''none'']\<rparr>"
  by (simp add: failed_setup_def run_def initial_page_def unsupported_env_def
      startSetupRecording_def startSetupRecording_granted_def startSetupRecording_catch_def
      resetRecordingUI_def showRecordingResult_def emit_def Let_def)

lemma held_tracks_fx: "held_tracks (s\<lparr>fx := es\<rparr>) = held_tracks s"
  by (simp add: held_tracks_def)

lemma held_tracks_emit: "held_tracks (emit es s) = held_tracks s"
  by (simp add: held_tracks_def emit_def)

lemma rec_stream_update:
  "rid < length rs \<Longrightarrow>
   (\<Union>r \<in> set (rs[rid := (rs ! rid)\<lparr>rec_state := st\<rparr>]). set (rec_stream r)) = (\<Union>r \<in> set rs. set (rec_stream r))"
proof -
  assume a: "rid < length rs"
  have "map rec_stream (rs[rid := (rs ! rid)\<lparr>rec_state := st\<rparr>]) = map rec_stream rs"
    using a by (simp add: map_update list_update_same_conv)
  then have "set (map rec_stream (rs[rid := (rs ! rid)\<lparr>rec_state := st\<rparr>])) = set (map rec_stream rs)"
    by simp
  then have "rec_stream ` set (rs[rid := (rs ! rid)\<lparr>rec_state := st\<rparr>]) = rec_stream ` set rs"
    by simp
  then have "(\<Union>x \<in> rec_stream ` set (rs[rid := (rs ! rid)\<lparr>rec_state := st\<rparr>]). set x) = (\<Union>x \<in> rec_stream ` set rs. set x)"
    by simp
  then show ?thesis by simp
qed

lemma held_tracks_state:
  "rid < length (recorders s) \<Longrightarrow>
   held_tracks (s\<lparr>recorders := (recorders s)[rid := (recorders s ! rid)\<lparr>rec_state := st\<rparr>]\<rparr>) = held_tracks s"
  by (simp add: held_tracks_def rec_stream_update)

lemma never_stopped_emit:
  "never_stopped t s \<Longrightarrow> TrackStop t \<notin> set es \<Longrightarrow> never_stopped t (emit es s)"
  by (simp add: never_stopped_def held_tracks_emit) (simp add: emit_def)

lemma never_stopped_stopRecording: "never_stopped t s \<Longrightarrow> never_stopped t (stopRecording s)"
  by (auto simp: stopRecording_def never_stopped_def held_tracks_def emit_def)

lemma never_stopped_startRecording: "never_stopped t s \<Longrightarrow> never_stopped t (startRecording th s)"
  by (auto simp: startRecording_def stopRecording_def never_stopped_def held_tracks_def emit_def Let_def)

lemma never_stopped_handleVoiceInput: "never_stopped t s \<Longrightarrow> never_stopped t (handleVoiceInput x s)"
  by (auto simp: handleVoiceInput_def never_stopped_def held_tracks_def emit_def Let_def)

lemma never_stopped_handleVoiceInput_response:
  "never_stopped t s \<Longrightarrow> never_stopped t (handleVoiceInput_response out s)"
  by (auto simp: handleVoiceInput_response_def handleVoiceInput_catch_def playAudio_def
        never_stopped_def held_tracks_def emit_def Let_def split: fetch_outcome.splits sum.splits)

lemma never_stopped_catch: "never_stopped t s \<Longrightarrow> never_stopped t (startSetupRecording_catch e s)"
  by (auto simp: startSetupRecording_catch_def resetRecordingUI_def showRecordingResult_def
        never_stopped_def held_tracks_def emit_def)

lemma never_stopped_granted:
  "never_stopped t s \<Longrightarrow> t \<notin> set st \<Longrightarrow> never_stopped t (startSetupRecording_granted st env s)"
  by (auto simp: startSetupRecording_granted_def startSetupRecording_catch_def resetRecordingUI_def
        showRecordingResult_def never_stopped_def held_tracks_def emit_def Let_def
        split: option.splits)

lemma never_stopped_stopSetupRecording:
  "never_stopped t s \<Longrightarrow> never_stopped t (stopSetupRecording s)"
  by (auto simp: stopSetupRecording_def never_stopped_def held_tracks_fx held_tracks_state
        emit_def Let_def split: option.splits)
     (auto simp: held_tracks_def dest: set_update_subset_insert [THEN subsetD])

lemma never_stopped_onstop:
  "never_stopped t s \<Longrightarrow> never_stopped t (mediaRecorder_onstop rid now s)"
  by (auto simp: mediaRecorder_onstop_def resetRecordingUI_def showRecordingResult_def
        uploadRecording_def never_stopped_def held_tracks_def emit_def Let_def)

lemma never_stopped_uploadRecording_response:
  "never_stopped t s \<Longrightarrow> never_stopped t (uploadRecording_response out s)"
  by (auto simp: uploadRecording_response_def uploadRecording_catch_def showRecordingResult_def
        never_stopped_def held_tracks_def emit_def split: fetch_outcome.splits sum.splits)

lemma never_stopped_step:
  assumes "never_stopped t s" and "t \<notin> granted_tracks e"
  shows "never_stopped t (step s e)"
proof (cases e)
  case (UserMediaGranted st env)
  with assms show ?thesis by (simp add: never_stopped_granted)
next
  case (RecognitionError m)
  with assms show ?thesis
    by (simp add: recognition_onerror_def never_stopped_emit never_stopped_stopRecording)
next
  case StartSetupRecording
  with assms show ?thesis
    by (auto simp: startSetupRecording_def never_stopped_def held_tracks_def emit_def)
next
  case (UserMediaRejected err)
  with assms show ?thesis
    using never_stopped_catch [of t "s\<lparr>pendingUserMedia := pendingUserMedia s - 1\<rparr>" err]
    by (auto simp: startSetupRecording_rejected_def never_stopped_def held_tracks_def)
next
  case (DataAvailable d)
  with assms show ?thesis
    by (auto simp: mediaRecorder_ondataavailable_def never_stopped_def held_tracks_def)
next
  case (RecorderError m)
  with assms show ?thesis
    by (simp add: mediaRecorder_onerror_def showRecordingResult_def never_stopped_emit
          never_stopped_stopSetupRecording)
qed (use assms in \<open>simp_all add: never_stopped_startRecording never_stopped_stopRecording
       never_stopped_handleVoiceInput never_stopped_handleVoiceInput_response recognition_onend_def
       never_stopped_stopSetupRecording never_stopped_onstop never_stopped_uploadRecording_response\<close>)

lemma never_stopped_run:
  "never_stopped t s \<Longrightarrow> list_all (\<lambda>e. t \<notin> granted_tracks e) evs \<Longrightarrow> never_stopped t (run s evs)"
  unfolding run_def
  by (induction evs arbitrary: s) (simp_all add: never_stopped_step)

lemma onstop_stops_tracks:
  "rid < length (recorders s) \<Longrightarrow> t \<in> set (rec_stream (recorders s ! rid)) \<Longrightarrow>
   TrackStop t \<in> set (emitted s (mediaRecorder_onstop rid now s))"
  by (auto simp: mediaRecorder_onstop_def resetRecordingUI_def showRecordingResult_def
        uploadRecording_def emitted_def emit_def Let_def)

text \<open>
  Claim C8, at an input where the code departs from it. The microphone is granted
  (a stream with track 0) and \<^verbatim>\<open>new MediaRecorder\<close> throws: the \<^verbatim>\<open>catch\<close> block of
  \<^verbatim>\<open>startSetupRecording\<close> shows the error and resets the interface, the session is
  over (no recording flag, no pending request, no recorder), and the track has not been
  stopped. No handler of the page stops it later, whatever happens, as long as no later
  stream has the same track: tracks are stopped by the \<^verbatim>\<open>onstop\<close> handler of a recorder
  only, and no recorder has this stream.
\<close>

theorem setup_failure_leaves_track_live:
  "list_all (\<lambda>e. 0 \<notin> granted_tracks e) evs \<Longrightarrow>
     isRecordingSetup failed_setup = False
     \<and> pendingUserMedia failed_setup = 0
     \<and> recorders failed_setup = []
     \<and> TrackStop 0 \<notin> set (fx (run failed_setup evs))"
proof -
  assume evs: "list_all (\<lambda>e. 0 \<notin> granted_tracks e) evs"
  have "never_stopped 0 failed_setup"
    by (simp add: never_stopped_def held_tracks_def failed_setup_eq)
  from never_stopped_run [OF this evs] show ?thesis
    by (simp add: never_stopped_def failed_setup_eq)
qed

theorem setup_failure_leaves_track_live_witness:
  "list_all (\<lambda>e. 0 \<notin> granted_tracks e)
     [StartSetupRecording, UserMediaGranted [1] (granted_env 2000), StopSetupRecording,
      RecorderStopped 0 40000]
   \<and> TrackStop 0 \<notin> set (fx (run failed_setup
         [StartSetupRecording, UserMediaGranted [1] (granted_env 2000), StopSetupRecording,
          RecorderStopped 0 40000]))
   \<and> TrackStop 1 \<in> set (fx (run failed_setup
         [StartSetupRecording, UserMediaGranted [1] (granted_env 2000), StopSetupRecording,
          RecorderStopped 0 40000]))"
proof -
  have g: "list_all (\<lambda>e. 0 \<notin> granted_tracks e)
     [StartSetupRecording, UserMediaGranted [1] (granted_env 2000), StopSetupRecording,
      RecorderStopped 0 40000]"
    by simp
  have one: "TrackStop 1 \<in> set (fx (run failed_setup
         [StartSetupRecording, UserMediaGranted [1] (granted_env 2000), StopSetupRecording,
          RecorderStopped 0 40000]))"
    by (simp add: failed_setup_eq run_def granted_env_def startSetupRecording_def
          startSetupRecording_granted_def stopSetupRecording_def mediaRecorder_onstop_def
          actualDuration_def uploadRecording_def choose_mimeType_def emit_def Let_def)
  from setup_failure_leaves_track_live [OF g] g one show ?thesis
    by simp
qed

end
